theory Spec2Isabelle
  imports Complex_Main
begin

section \<open>JavaScript values as the scripts see them\<close>

text \<open>
  Both scripts work on the values that \<^verbatim>\<open>response.json()\<close> hands them: undefined (the
  result of reading a property that is not there), null, booleans, numbers, strings,
  arrays and plain objects. A number parsed from JSON is never NaN; the scripts only ask
  whether a number is a number and whether it is zero, so numbers are reals (the finite
  doubles are among them, \<open>-0\<close> is \<open>0\<close> and falsy like it, and an infinity, which JSON
  text with a huge exponent parses to, behaves like any other number that is not zero).
  An object is the list of its own properties; the first binding of a key is the one
  that is read.
\<close>

datatype jsval =
    JUndefined
  | JNull
  | JBool bool
  | JNum real
  | JStr string
  | JArr "jsval list"
  | JObj "(string \<times> jsval) list"

text \<open>The only exception these functions can raise by themselves is a TypeError.\<close>

datatype js_error = TypeError

type_synonym 'a result = "js_error + 'a"

definition bind_res :: "'a result \<Rightarrow> ('a \<Rightarrow> 'b result) \<Rightarrow> 'b result" where
  "bind_res r f = (case r of Inl e \<Rightarrow> Inl e | Inr v \<Rightarrow> f v)"

text \<open>\<^verbatim>\<open>xs.map(f)\<close> where \<open>f\<close> may throw: the first exception ends the map.\<close>

fun map_res :: "('a \<Rightarrow> 'b result) \<Rightarrow> 'a list \<Rightarrow> 'b list result" where
  "map_res f [] = Inr []"
| "map_res f (x # xs) =
     bind_res (f x) (\<lambda>y. bind_res (map_res f xs) (\<lambda>ys. Inr (y # ys)))"

text \<open>Truthiness: what \<^verbatim>\<open>!v\<close>, \<^verbatim>\<open>v || w\<close>, \<^verbatim>\<open>v && w\<close> and \<^verbatim>\<open>if (v)\<close> test.\<close>

fun truthy :: "jsval \<Rightarrow> bool" where
  "truthy JUndefined = False"
| "truthy JNull = False"
| "truthy (JBool b) = b"
| "truthy (JNum x) = (x \<noteq> 0)"
| "truthy (JStr s) = (s \<noteq> [])"
| "truthy (JArr xs) = True"
| "truthy (JObj kvs) = True"

definition js_or :: "jsval \<Rightarrow> jsval \<Rightarrow> jsval" where
  "js_or a b = (if truthy a then a else b)"

definition nullish :: "jsval \<Rightarrow> bool" where
  "nullish v = (v = JUndefined \<or> v = JNull)"

text \<open>\<^verbatim>\<open>typeof v === 'number'\<close> and \<^verbatim>\<open>Array.isArray(v)\<close>.\<close>

fun is_number :: "jsval \<Rightarrow> bool" where
  "is_number (JNum x) = True"
| "is_number v = False"

fun isArray :: "jsval \<Rightarrow> bool" where
  "isArray (JArr xs) = True"
| "isArray v = False"

text \<open>
  \<^verbatim>\<open>v.k\<close> and \<^verbatim>\<open>v[k]\<close>: reading a property of undefined or null throws a TypeError; an
  object gives its own property or undefined; a boolean, a number, a string or an array
  gives undefined for every property name the scripts read (none of them names a
  built-in or inherited member such as \<^verbatim>\<open>length\<close> or \<^verbatim>\<open>constructor\<close>).
\<close>

fun get_prop :: "jsval \<Rightarrow> string \<Rightarrow> jsval result" where
  "get_prop JUndefined k = Inl TypeError"
| "get_prop JNull k = Inl TypeError"
| "get_prop (JObj kvs) k = Inr (case map_of kvs k of None \<Rightarrow> JUndefined | Some v \<Rightarrow> v)"
| "get_prop v k = Inr JUndefined"

text \<open>\<^verbatim>\<open>v?.k\<close>: undefined when \<open>v\<close> is undefined or null, \<^verbatim>\<open>v.k\<close> otherwise.\<close>

fun opt_prop :: "jsval \<Rightarrow> string \<Rightarrow> jsval" where
  "opt_prop (JObj kvs) k = (case map_of kvs k of None \<Rightarrow> JUndefined | Some v \<Rightarrow> v)"
| "opt_prop v k = JUndefined"

text \<open>
  Conversion to a string, as \<^verbatim>\<open>Array.prototype.join\<close> and a template literal do it.
  The digits of a number are those of the engine: \<open>ns\<close> stands for Number::toString.
  A plain object prints as \<^verbatim>\<open>[object Object]\<close> through Object.prototype.toString, unless
  it has an own property \<^verbatim>\<open>toString\<close>: a JSON value is never callable, so the conversion
  finds no method that returns a primitive and throws a TypeError. An array prints as
  its elements joined by commas. \<open>join\<close> prints undefined and null as the empty string.
\<close>

fun ToString :: "(real \<Rightarrow> string) \<Rightarrow> jsval \<Rightarrow> string result"
  and join :: "(real \<Rightarrow> string) \<Rightarrow> string \<Rightarrow> jsval list \<Rightarrow> string result"
where
  "ToString ns JUndefined = Inr ''undefined''"
| "ToString ns JNull = Inr ''null''"
| "ToString ns (JBool b) = Inr (if b then ''true'' else ''false'')"
| "ToString ns (JNum x) = Inr (ns x)"
| "ToString ns (JStr s) = Inr s"
| "ToString ns (JArr xs) = join ns '','' xs"
| "ToString ns (JObj kvs) =
     (if map_of kvs ''toString'' \<noteq> None then Inl TypeError else Inr ''[object Object]'')"
| "join ns sep [] = Inr []"
| "join ns sep (x # xs) =
     (case (if x = JUndefined \<or> x = JNull then Inr [] else ToString ns x) of
        Inl e \<Rightarrow> Inl e
      | Inr s \<Rightarrow>
          (case xs of
             [] \<Rightarrow> Inr s
           | y # ys \<Rightarrow>
               (case join ns sep xs of Inl e \<Rightarrow> Inl e | Inr t \<Rightarrow> Inr (s @ sep @ t))))"

section \<open>The export script\<close>

subsection \<open>Configuration\<close>

definition VALID_ACCOUNT_STATUSES :: "jsval list" where
  "VALID_ACCOUNT_STATUSES = [JStr ''Customer'', JStr ''Customer Overdue'']"

text \<open>
  The product column mapping, in the order \<^verbatim>\<open>Object.entries\<close> lists it (the order the
  literal is written in: none of the keys is an array index).
\<close>

definition PRODUCT_COLUMNS :: "(string \<times> string) list" where
  "PRODUCT_COLUMNS =
     [(''State of Mind 1G Customer'', ''State of Mind''),
      (''O-Yeah 1G Customer'', ''O-Yeah''),
      (''SUSHI Hash 1G Customer'', ''Sushi Hash''),
      (''SMACK 1G'', ''SMACK''),
      (''SMACK .5G'', ''SMACK''),
      (''ICHI- #JUAN 1G Customer'', ''ICHI'')]"

subsection \<open>Field accessors\<close>

definition getPlainText :: "(real \<Rightarrow> string) \<Rightarrow> jsval \<Rightarrow> jsval result" where
  "getPlainText ns richTextArray =
     (if \<not> truthy richTextArray \<or> \<not> isArray richTextArray then Inr JNull
      else case richTextArray of
        JArr rts \<Rightarrow>
          bind_res (map_res (\<lambda>rt. get_prop rt ''plain_text'') rts) (\<lambda>texts.
          bind_res (join ns [] texts) (\<lambda>joined.
          Inr (js_or (JStr joined) JNull)))
      | _ \<Rightarrow> Inr JNull)"

definition getTitle :: "(real \<Rightarrow> string) \<Rightarrow> jsval \<Rightarrow> jsval result" where
  "getTitle ns properties =
     bind_res (get_prop properties ''Dispensary Name'') (\<lambda>titleProp.
     if \<not> truthy titleProp then Inr JNull
     else bind_res (get_prop titleProp ''type'') (\<lambda>ty.
       if ty \<noteq> JStr ''title'' then Inr JNull
       else bind_res (get_prop titleProp ''title'') (\<lambda>title.
         getPlainText ns title)))"

definition getStatus :: "jsval \<Rightarrow> jsval result" where
  "getStatus properties =
     bind_res (get_prop properties ''Account Status'') (\<lambda>statusProp.
     if \<not> truthy statusProp then Inr JNull
     else bind_res (get_prop statusProp ''type'') (\<lambda>ty.
       if ty \<noteq> JStr ''status'' then Inr JNull
       else bind_res (get_prop statusProp ''status'') (\<lambda>st.
         Inr (js_or (opt_prop st ''name'') JNull))))"

text \<open>
  \<^verbatim>\<open>rollup.type\<close> is read without a guard: it throws when \<^verbatim>\<open>prop.rollup\<close> is undefined or
  null. \<^verbatim>\<open>rollup.date\<close> is read twice by the source, with the same result.
\<close>

definition getRollupDate :: "jsval \<Rightarrow> string \<Rightarrow> jsval result" where
  "getRollupDate properties propName =
     bind_res (get_prop properties propName) (\<lambda>prop.
     if \<not> truthy prop then Inr JNull
     else bind_res (get_prop prop ''type'') (\<lambda>ty.
       if ty \<noteq> JStr ''rollup'' then Inr JNull
       else bind_res (get_prop prop ''rollup'') (\<lambda>rollup.
         bind_res (get_prop rollup ''type'') (\<lambda>rty.
         if rty = JStr ''date'' then
           bind_res (get_prop rollup ''date'') (\<lambda>d.
           if truthy d then
             bind_res (get_prop d ''start'') (\<lambda>start. Inr (js_or start JNull))
           else Inr JNull)
         else Inr JNull))))"

definition getMapLocation :: "jsval \<Rightarrow> jsval result" where
  "getMapLocation properties =
     bind_res (get_prop properties ''Map Location'') (\<lambda>placeProp.
     if \<not> truthy placeProp then Inr JNull
     else bind_res (get_prop placeProp ''type'') (\<lambda>ty.
       if ty \<noteq> JStr ''place'' then Inr JNull
       else bind_res (get_prop placeProp ''place'') (\<lambda>place.
         if \<not> truthy place then Inr JNull
         else bind_res (get_prop place ''lat'') (\<lambda>lat.
           bind_res (get_prop place ''lon'') (\<lambda>lon.
           if \<not> is_number lat \<or> \<not> is_number lon then Inr JNull
           else Inr (JObj [(''lat'', lat), (''lng'', lon)]))))))"

subsection \<open>Products\<close>

text \<open>\<^verbatim>\<open>products.add(displayName)\<close> on a Set, kept in insertion order.\<close>

definition set_add :: "string list \<Rightarrow> string \<Rightarrow> string list" where
  "set_add products displayName =
     (if displayName \<in> set products then products else products @ [displayName])"

fun products_loop :: "jsval \<Rightarrow> (string \<times> string) list \<Rightarrow> string list \<Rightarrow> string list result" where
  "products_loop properties [] products = Inr products"
| "products_loop properties ((propName, displayName) # rest) products =
     bind_res (getRollupDate properties propName) (\<lambda>date.
     products_loop properties rest
       (if truthy date then set_add products displayName else products))"

definition getProducts :: "jsval \<Rightarrow> string list result" where
  "getProducts properties = products_loop properties PRODUCT_COLUMNS []"

subsection \<open>Transformation, filter and output\<close>

text \<open>The store object of \<^verbatim>\<open>transformPage\<close> (\<open>id\<close> is a constant of HOL: \<open>id_of\<close>).\<close>

record NormalizedStore =
  id_of :: jsval
  name :: jsval
  address :: jsval
  lat :: jsval
  lng :: jsval
  status :: jsval
  lastOrderDate :: jsval
  lastDeliveryDate :: jsval
  products :: "string list"

definition transformPage :: "(real \<Rightarrow> string) \<Rightarrow> jsval \<Rightarrow> NormalizedStore result" where
  "transformPage ns page =
     bind_res (get_prop page ''properties'') (\<lambda>props.
     bind_res (getTitle ns props) (\<lambda>name_v.
     bind_res (get_prop props ''Address'') (\<lambda>addressProp.
     bind_res (getPlainText ns (opt_prop addressProp ''rich_text'')) (\<lambda>address_v.
     bind_res (get_prop props ''City'') (\<lambda>cityProp.
     bind_res (getPlainText ns (opt_prop cityProp ''rich_text'')) (\<lambda>city.
     bind_res (getStatus props) (\<lambda>status_v.
     bind_res (getRollupDate props ''Last Order Date'') (\<lambda>lastOrderDate_v.
     bind_res (getRollupDate props ''Last Delivery Date'') (\<lambda>lastDeliveryDate_v.
     bind_res (getMapLocation props) (\<lambda>location.
     bind_res (getProducts props) (\<lambda>products_v.
     bind_res (get_prop page ''id'') (\<lambda>page_id.
     bind_res
       (if truthy address_v then
          (if truthy city then
             bind_res (ToString ns address_v) (\<lambda>a.
             bind_res (ToString ns city) (\<lambda>c. Inr (JStr (a @ '', '' @ c))))
           else Inr address_v)
        else Inr JNull) (\<lambda>address_out.
     Inr \<lparr> id_of = page_id,
           name = name_v,
           address = address_out,
           lat = js_or (opt_prop location ''lat'') JNull,
           lng = js_or (opt_prop location ''lng'') JNull,
           status = status_v,
           lastOrderDate = lastOrderDate_v,
           lastDeliveryDate = lastDeliveryDate_v,
           products = products_v \<rparr>)))))))))))))"

definition filterStores :: "NormalizedStore list \<Rightarrow> NormalizedStore list" where
  "filterStores stores_in =
     filter (\<lambda>store.
       if \<not> truthy (name store) \<or> \<not> truthy (lat store) \<or> \<not> truthy (lng store) then False
       else if status store \<notin> set VALID_ACCOUNT_STATUSES then False
       else True) stores_in"

text \<open>The entries of the output document (fields prefixed where a store has them too).\<close>

record OutputStoreRecord =
  out_id :: jsval
  out_name :: jsval
  out_address :: jsval
  out_lat :: jsval
  out_lng :: jsval
  out_products :: "string list"
  lastDelivery :: jsval

record ExportDocument =
  generated :: string
  count :: nat
  stores :: "OutputStoreRecord list"

definition outputStore :: "NormalizedStore \<Rightarrow> OutputStoreRecord" where
  "outputStore store =
     \<lparr> out_id = id_of store,
       out_name = name store,
       out_address = address store,
       out_lat = lat store,
       out_lng = lng store,
       out_products = products store,
       lastDelivery = js_or (lastDeliveryDate store) (lastOrderDate store) \<rparr>"

text \<open>
  \<^verbatim>\<open>exportStores\<close>, given the pages that \<^verbatim>\<open>fetchAllPages\<close> returned and the time stamp
  \<^verbatim>\<open>new Date().toISOString()\<close>.
\<close>

definition exportStores :: "(real \<Rightarrow> string) \<Rightarrow> string \<Rightarrow> jsval list \<Rightarrow> ExportDocument result" where
  "exportStores ns now pages =
     bind_res (map_res (transformPage ns) pages) (\<lambda>allStores.
     let filteredStores = filterStores allStores;
         outputStores = map outputStore filteredStores
     in Inr \<lparr> generated = now, count = length outputStores, stores = outputStores \<rparr>)"

section \<open>The analysis script\<close>






text \<open>
  \<^verbatim>\<open>new Date(v) >= sixtyDaysAgo\<close>. The Date constructor is the engine's: \<open>newDate v\<close> is
  the time value of \<^verbatim>\<open>new Date(v)\<close> in milliseconds, \<open>None\<close> for an invalid date (whose
  comparison is false), or the exception the conversion of \<open>v\<close> throws. The comparison
  is that of the two time values.
\<close>















section \<open>The street and the city of a record\<close>

text \<open>The two texts \<^verbatim>\<open>transformPage\<close> builds the address from, named for the statements
  about them.\<close>

definition street_text :: "(real \<Rightarrow> string) \<Rightarrow> jsval \<Rightarrow> jsval result" where
  "street_text ns page =
     bind_res (get_prop page ''properties'') (\<lambda>props.
     bind_res (get_prop props ''Address'') (\<lambda>addressProp.
     getPlainText ns (opt_prop addressProp ''rich_text'')))"

definition city_text :: "(real \<Rightarrow> string) \<Rightarrow> jsval \<Rightarrow> jsval result" where
  "city_text ns page =
     bind_res (get_prop page ''properties'') (\<lambda>props.
     bind_res (get_prop props ''City'') (\<lambda>cityProp.
     getPlainText ns (opt_prop cityProp ''rich_text'')))"

text \<open>
  The address as the specification words it: street and city joined when both are
  present, else whichever is present, else absent.
\<close>

fun spec_address :: "jsval \<Rightarrow> jsval \<Rightarrow> jsval" where
  "spec_address (JStr a) (JStr c) = JStr (a @ '', '' @ c)"
| "spec_address (JStr a) c = JStr a"
| "spec_address a (JStr c) = JStr c"
| "spec_address a c = JNull"

section \<open>Sample records\<close>

text \<open>
  Property values in the shape the database API gives them, and a few pages built from
  them. None of the pages has a number where a text is expected, so the rendering of
  digits plays no part in running the functions on them; \<open>digits0\<close> fills the argument.
\<close>

definition digits0 :: "real \<Rightarrow> string" where
  "digits0 x = ''0''"

definition title_prop :: "string \<Rightarrow> jsval" where
  "title_prop s =
     JObj [(''type'', JStr ''title''), (''title'', JArr [JObj [(''plain_text'', JStr s)]])]"

definition rich_text_prop :: "string \<Rightarrow> jsval" where
  "rich_text_prop s =
     JObj [(''type'', JStr ''rich_text''),
           (''rich_text'', JArr [JObj [(''plain_text'', JStr s)]])]"

definition status_prop :: "string \<Rightarrow> jsval" where
  "status_prop s =
     JObj [(''type'', JStr ''status''), (''status'', JObj [(''name'', JStr s)])]"

definition place_prop :: "real \<Rightarrow> real \<Rightarrow> jsval" where
  "place_prop la lo =
     JObj [(''type'', JStr ''place''),
           (''place'', JObj [(''lat'', JNum la), (''lon'', JNum lo)])]"

definition rollup_date_prop :: "string \<Rightarrow> jsval" where
  "rollup_date_prop s =
     JObj [(''type'', JStr ''rollup''),
           (''rollup'', JObj [(''type'', JStr ''date''),
                              (''date'', JObj [(''start'', JStr s)])])]"

definition notion_page :: "string \<Rightarrow> (string \<times> jsval) list \<Rightarrow> jsval" where
  "notion_page i props = JObj [(''id'', JStr i), (''properties'', JObj props)]"

text \<open>A customer on the equator and the prime meridian.\<close>

definition zero_coordinates_props :: "(string \<times> jsval) list" where
  "zero_coordinates_props =
     [(''Dispensary Name'', title_prop ''Acme''),
      (''Account Status'', status_prop ''Customer''),
      (''Map Location'', place_prop 0 0)]"

definition zero_coordinates_page :: jsval where
  "zero_coordinates_page = notion_page ''p0'' zero_coordinates_props"

text \<open>The same customer as a store that has kept its coordinates.\<close>

definition zero_coordinates_store :: NormalizedStore where
  "zero_coordinates_store =
     \<lparr> id_of = JStr ''p0'', name = JStr ''Acme'', address = JNull,
       lat = JNum 0, lng = JNum 0, status = JStr ''Customer'',
       lastOrderDate = JNull, lastDeliveryDate = JNull, products = [] \<rparr>"

text \<open>A customer on the equator, east of the prime meridian.\<close>

definition equator_props :: "(string \<times> jsval) list" where
  "equator_props =
     [(''Dispensary Name'', title_prop ''Acme''),
      (''Account Status'', status_prop ''Customer''),
      (''Map Location'', place_prop 0 32)]"

definition equator_page :: jsval where
  "equator_page = notion_page ''p1'' equator_props"

text \<open>A rollup property without its nested rollup object.\<close>

definition bare_rollup_props :: jsval where
  "bare_rollup_props = JObj [(''Last Order Date'', JObj [(''type'', JStr ''rollup'')])]"

definition bare_rollup_page :: jsval where
  "bare_rollup_page = JObj [(''id'', JStr ''p2''), (''properties'', bare_rollup_props)]"

text \<open>A record with a city and no street, and one with both.\<close>

definition city_only_page :: jsval where
  "city_only_page =
     notion_page ''p3''
       [(''Dispensary Name'', title_prop ''Acme''),
        (''City'', rich_text_prop ''Oakland''),
        (''Account Status'', status_prop ''Customer''),
        (''Map Location'', place_prop 37 (-122))]"

definition street_city_page :: jsval where
  "street_city_page =
     notion_page ''p4''
       [(''Dispensary Name'', title_prop ''Acme''),
        (''Address'', rich_text_prop ''1 Main St''),
        (''City'', rich_text_prop ''Oakland''),
        (''Account Status'', status_prop ''Customer''),
        (''Map Location'', place_prop 37 (-122))]"

text \<open>A complete record: ordered recently, last delivered months before, both SMACK
  sizes on the shelf. \<open>complete_page\<close> takes the status, so that the same record can be
  a customer or a lead.\<close>

definition complete_props :: "string \<Rightarrow> (string \<times> jsval) list" where
  "complete_props st =
     [(''Dispensary Name'', title_prop ''Acme''),
      (''Address'', rich_text_prop ''1 Main St''),
      (''City'', rich_text_prop ''Oakland''),
      (''Account Status'', status_prop st),
      (''Map Location'', place_prop 37 (-122)),
      (''Last Order Date'', rollup_date_prop ''2026-10-20''),
      (''Last Delivery Date'', rollup_date_prop ''2026-01-15''),
      (''SMACK 1G'', rollup_date_prop ''2026-01-15''),
      (''SMACK .5G'', rollup_date_prop ''2026-01-15'')]"

definition complete_page :: "string \<Rightarrow> jsval" where
  "complete_page st = notion_page ''p5'' (complete_props st)"

definition complete_store :: "string \<Rightarrow> NormalizedStore" where
  "complete_store st =
     \<lparr> id_of = JStr ''p5'', name = JStr ''Acme'', address = JStr ''1 Main St, Oakland'',
       lat = JNum 37, lng = JNum (-122), status = JStr st,
       lastOrderDate = JStr ''2026-10-20'', lastDeliveryDate = JStr ''2026-01-15'',
       products = [''SMACK''] \<rparr>"

definition complete_output :: OutputStoreRecord where
  "complete_output =
     \<lparr> out_id = JStr ''p5'', out_name = JStr ''Acme'', out_address = JStr ''1 Main St, Oakland'',
       out_lat = JNum 37, out_lng = JNum (-122), out_products = [''SMACK''],
       lastDelivery = JStr ''2026-01-15'' \<rparr>"






section \<open>Auxiliary facts\<close>

subsection \<open>Results and their composition\<close>

lemma bind_res_Inr: "bind_res r f = Inr y \<longleftrightarrow> (\<exists>v. r = Inr v \<and> f v = Inr y)"
  by (cases r) (simp_all add: bind_res_def)

lemma bind_res_simps [simp]: "bind_res (Inr v) f = f v" "bind_res (Inl e) f = Inl e"
  by (simp_all add: bind_res_def)

lemma map_res_Inr:
  "map_res f xs = Inr ys \<Longrightarrow> length ys = length xs \<and> (\<forall>i<length xs. f (xs ! i) = Inr (ys ! i))"
proof (induction xs arbitrary: ys)
  case Nil
  then show ?case by simp
next
  case (Cons x xs)
  from Cons.prems obtain y ys' where y: "f x = Inr y" and ys': "map_res f xs = Inr ys'"
    and eq: "ys = y # ys'"
    by (auto simp: bind_res_Inr)
  from Cons.IH [OF ys'] have ih: "length ys' = length xs" "\<forall>i<length xs. f (xs ! i) = Inr (ys' ! i)"
    by simp_all
  show ?case
  proof (intro conjI allI impI)
    show "length ys = length (x # xs)" using eq ih by simp
  next
    fix i assume "i < length (x # xs)"
    then show "f ((x # xs) ! i) = Inr (ys ! i)"
      using y ih eq by (cases i) simp_all
  qed
qed

lemma map_res_set:
  assumes "map_res f xs = Inr ys" and "y \<in> set ys"
  shows "\<exists>x\<in>set xs. f x = Inr y"
proof -
  from assms(2) obtain i where i: "i < length ys" "ys ! i = y"
    by (auto simp: in_set_conv_nth)
  with map_res_Inr [OF assms(1)] have "i < length xs" "f (xs ! i) = Inr y"
    by auto
  then show ?thesis by (metis nth_mem)
qed

subsection \<open>What the accessors can return\<close>

lemma get_prop_truthy: "truthy v \<Longrightarrow> get_prop v k = Inr (opt_prop v k)"
  by (cases v) simp_all

lemma getPlainText_cases:
  "getPlainText ns v = Inr r \<Longrightarrow> r = JNull \<or> (\<exists>s. r = JStr s \<and> s \<noteq> [])"
  by (cases v) (auto simp: getPlainText_def bind_res_Inr js_or_def split: if_splits)

lemma getTitle_cases:
  "getTitle ns props = Inr r \<Longrightarrow> r = JNull \<or> (\<exists>s. r = JStr s \<and> s \<noteq> [])"
  by (auto simp: getTitle_def bind_res_Inr split: if_splits dest: getPlainText_cases)

lemma getRollupDate_cases:
  "getRollupDate props k = Inr r \<Longrightarrow> r = JNull \<or> truthy r"
  by (auto simp: getRollupDate_def bind_res_Inr js_or_def split: if_splits)

lemma getStatus_cases:
  "getStatus props = Inr r \<Longrightarrow> r = JNull \<or> truthy r"
  by (auto simp: getStatus_def bind_res_Inr js_or_def split: if_splits)

lemma is_number_iff: "is_number v \<longleftrightarrow> (\<exists>x. v = JNum x)"
  by (cases v) simp_all

lemma getMapLocation_cases:
  "getMapLocation props = Inr l \<Longrightarrow>
     l = JNull \<or> (\<exists>x y. l = JObj [(''lat'', JNum x), (''lng'', JNum y)])"
  by (auto simp: getMapLocation_def bind_res_Inr is_number_iff split: if_splits)

lemma transformPage_Inr:
  assumes "transformPage ns page = Inr st"
  shows "\<exists>props addressProp cityProp a c location.
     get_prop page ''properties'' = Inr props \<and>
     getTitle ns props = Inr (name st) \<and>
     get_prop props ''Address'' = Inr addressProp \<and>
     getPlainText ns (opt_prop addressProp ''rich_text'') = Inr a \<and>
     get_prop props ''City'' = Inr cityProp \<and>
     getPlainText ns (opt_prop cityProp ''rich_text'') = Inr c \<and>
     getStatus props = Inr (status st) \<and>
     getRollupDate props ''Last Order Date'' = Inr (lastOrderDate st) \<and>
     getRollupDate props ''Last Delivery Date'' = Inr (lastDeliveryDate st) \<and>
     getMapLocation props = Inr location \<and>
     getProducts props = Inr (products st) \<and>
     get_prop page ''id'' = Inr (id_of st) \<and>
     lat st = js_or (opt_prop location ''lat'') JNull \<and>
     lng st = js_or (opt_prop location ''lng'') JNull \<and>
     (if truthy a then
        (if truthy c then
           bind_res (ToString ns a) (\<lambda>x. bind_res (ToString ns c) (\<lambda>y. Inr (JStr (x @ '', '' @ y))))
         else Inr a)
      else Inr JNull) = Inr (address st)"
  using assms unfolding transformPage_def bind_res_Inr
  by (elim exE conjE) (clarsimp simp del: bind_res_simps)

subsection \<open>The sample records, transformed and exported\<close>

lemmas sample_defs =
  digits0_def title_prop_def rich_text_prop_def status_prop_def place_prop_def
  rollup_date_prop_def notion_page_def

lemmas export_defs =
  transformPage_def getTitle_def getPlainText_def getStatus_def getRollupDate_def
  getMapLocation_def getProducts_def PRODUCT_COLUMNS_def set_add_def js_or_def

lemma transformPage_complete_page:
  "st \<noteq> [] \<Longrightarrow> transformPage ns (complete_page st) = Inr (complete_store st)"
  by (simp add: complete_page_def complete_props_def complete_store_def sample_defs export_defs)

lemma outputStore_complete_store: "outputStore (complete_store st) = complete_output"
  by (simp add: outputStore_def complete_store_def complete_output_def js_or_def)

lemma filterStores_complete:
  "filterStores [complete_store ''Lead'', complete_store ''Customer''] = [complete_store ''Customer'']"
  by (simp add: filterStores_def complete_store_def VALID_ACCOUNT_STATUSES_def)

lemma exportStores_complete:
  "exportStores ns now [complete_page ''Lead'', complete_page ''Customer''] =
     Inr \<lparr>generated = now, count = 1, stores = [complete_output]\<rparr>"
  by (simp add: exportStores_def transformPage_complete_page filterStores_complete
      outputStore_complete_store)

lemma exportStores_Inr:
  assumes "exportStores ns now pages = Inr doc"
  shows "\<exists>allStores. map_res (transformPage ns) pages = Inr allStores \<and>
           stores doc = map outputStore (filterStores allStores) \<and>
           count doc = length (filterStores allStores) \<and> generated doc = now"
  using assms by (auto simp: exportStores_def bind_res_Inr Let_def)

subsection \<open>The fields of a transformed record, the filter\<close>

lemma transformPage_fields:
  assumes "transformPage ns page = Inr st"
  shows "name st = JNull \<or> (\<exists>s. name st = JStr s \<and> s \<noteq> [])"
    and "lat st = JNull \<or> (\<exists>x. lat st = JNum x)"
    and "lng st = JNull \<or> (\<exists>y. lng st = JNum y)"
    and "lastOrderDate st = JNull \<or> truthy (lastOrderDate st)"
    and "lastDeliveryDate st = JNull \<or> truthy (lastDeliveryDate st)"
proof -
  from transformPage_Inr [OF assms] obtain props location where
    t: "getTitle ns props = Inr (name st)" and
    o: "getRollupDate props ''Last Order Date'' = Inr (lastOrderDate st)" and
    d: "getRollupDate props ''Last Delivery Date'' = Inr (lastDeliveryDate st)" and
    l: "getMapLocation props = Inr location" and
    la: "lat st = js_or (opt_prop location ''lat'') JNull" and
    lo: "lng st = js_or (opt_prop location ''lng'') JNull"
    by blast
  show "name st = JNull \<or> (\<exists>s. name st = JStr s \<and> s \<noteq> [])"
    using t by (rule getTitle_cases)
  show "lastOrderDate st = JNull \<or> truthy (lastOrderDate st)"
    using o by (rule getRollupDate_cases)
  show "lastDeliveryDate st = JNull \<or> truthy (lastDeliveryDate st)"
    using d by (rule getRollupDate_cases)
  from getMapLocation_cases [OF l]
  show "lat st = JNull \<or> (\<exists>x. lat st = JNum x)"
    using la by (auto simp: js_or_def)
  from getMapLocation_cases [OF l]
  show "lng st = JNull \<or> (\<exists>y. lng st = JNum y)"
    using lo by (auto simp: js_or_def)
qed

lemma filterStores_set:
  "st \<in> set (filterStores ss) \<longleftrightarrow>
     st \<in> set ss \<and> truthy (name st) \<and> truthy (lat st) \<and> truthy (lng st) \<and>
     status st \<in> set VALID_ACCOUNT_STATUSES"
  by (auto simp: filterStores_def)

subsection \<open>Further facts about the accessors, the products and the analysis\<close>

lemma get_prop_not_nullish: "\<not> nullish v \<Longrightarrow> get_prop v k = Inr (opt_prop v k)"
  by (cases v) (simp_all add: nullish_def)

lemma getStatus_total: "\<not> nullish props \<Longrightarrow> \<exists>r. getStatus props = Inr r"
  by (simp add: getStatus_def get_prop_not_nullish get_prop_truthy cong: if_cong)

lemma getMapLocation_total: "\<not> nullish props \<Longrightarrow> \<exists>r. getMapLocation props = Inr r"
  by (simp add: getMapLocation_def get_prop_not_nullish get_prop_truthy cong: if_cong)

lemma products_loop_inv:
  assumes "products_loop props cols acc = Inr ps" and "distinct acc"
  shows "distinct ps \<and>
         set ps = set acc \<union>
           {d. \<exists>k v. (k, d) \<in> set cols \<and> getRollupDate props k = Inr v \<and> truthy v}"
  using assms
proof (induction cols arbitrary: acc)
  case Nil
  then show ?case by simp
next
  case (Cons col cols)
  obtain k d where col: "col = (k, d)" by (cases col)
  from Cons.prems(1) col obtain v where
    v: "getRollupDate props k = Inr v" and
    rest: "products_loop props cols (if truthy v then set_add acc d else acc) = Inr ps"
    by (auto simp: bind_res_Inr)
  have dist: "distinct (if truthy v then set_add acc d else acc)"
    using Cons.prems(2) by (simp add: set_add_def)
  have acc': "set (if truthy v then set_add acc d else acc) =
                set acc \<union> (if truthy v then {d} else {})"
    by (auto simp: set_add_def)
  from Cons.IH [OF rest dist] have
    d: "distinct ps" and
    s: "set ps = set acc \<union> (if truthy v then {d} else {}) \<union>
          {d. \<exists>k v. (k, d) \<in> set cols \<and> getRollupDate props k = Inr v \<and> truthy v}"
    by (simp_all add: acc')
  have "set ps = set acc \<union>
          {d. \<exists>k v. (k, d) \<in> set (col # cols) \<and> getRollupDate props k = Inr v \<and> truthy v}"
    unfolding s col using v by auto
  with d show ?case by simp
qed

lemma getRollupDate_present:
  "getRollupDate props k = Inr v \<Longrightarrow> truthy v \<longleftrightarrow> v \<noteq> JNull"
  using getRollupDate_cases [of props k v] by auto

lemma getProducts_complete: "getProducts (JObj (complete_props st)) = Inr [''SMACK'']"
  by (simp add: complete_props_def sample_defs getProducts_def getRollupDate_def
      PRODUCT_COLUMNS_def set_add_def js_or_def)



subsection \<open>The loop of the analysis report\<close>






section \<open>The claims\<close>

subsection \<open>C1: a record at latitude 0, longitude 0\<close>

text \<open>
  C1 says that a record whose coordinates are the numbers 0 and 0, with a name and a
  listed status, passes the filter. The code drops it. \<^verbatim>\<open>getMapLocation\<close> tests
  \<^verbatim>\<open>typeof\<close> and returns the pair of zeros; \<^verbatim>\<open>transformPage\<close> then takes
  \<^verbatim>\<open>location?.lat || null\<close>, which turns a zero into null, and \<^verbatim>\<open>filterStores\<close>
  tests \<^verbatim>\<open>!store.lat\<close>, which rejects a zero even in a store that has kept it. The
  document exported from the sample customer at (0, 0) is empty.
\<close>

theorem zero_coordinates_record_dropped:
  "getMapLocation (JObj zero_coordinates_props) = Inr (JObj [(''lat'', JNum 0), (''lng'', JNum 0)])
   \<and> transformPage ns zero_coordinates_page =
       Inr \<lparr> id_of = JStr ''p0'', name = JStr ''Acme'', address = JNull,
             lat = JNull, lng = JNull, status = JStr ''Customer'',
             lastOrderDate = JNull, lastDeliveryDate = JNull, products = [] \<rparr>
   \<and> filterStores [zero_coordinates_store] = []
   \<and> exportStores ns now [zero_coordinates_page] = Inr \<lparr>generated = now, count = 0, stores = []\<rparr>"
proof -
  have t: "transformPage ns zero_coordinates_page =
       Inr \<lparr> id_of = JStr ''p0'', name = JStr ''Acme'', address = JNull,
             lat = JNull, lng = JNull, status = JStr ''Customer'',
             lastOrderDate = JNull, lastDeliveryDate = JNull, products = [] \<rparr>"
    by (simp add: zero_coordinates_page_def zero_coordinates_props_def sample_defs export_defs)
  have g: "getMapLocation (JObj zero_coordinates_props) =
             Inr (JObj [(''lat'', JNum 0), (''lng'', JNum 0)])"
    by (simp add: zero_coordinates_props_def sample_defs getMapLocation_def)
  have f: "filterStores [zero_coordinates_store] = []"
    by (simp add: filterStores_def zero_coordinates_store_def)
  have e: "exportStores ns now [zero_coordinates_page] = Inr \<lparr>generated = now, count = 0, stores = []\<rparr>"
    by (simp add: exportStores_def t filterStores_def)
  from g t f e show ?thesis by simp
qed

theorem zero_coordinates_record_dropped_witness:
  "filterStores [zero_coordinates_store] = []
   \<and> exportStores digits0 ''2026-11-02T06:00:00.000Z'' [zero_coordinates_page] =
       Inr \<lparr>generated = ''2026-11-02T06:00:00.000Z'', count = 0, stores = []\<rparr>"
  using zero_coordinates_record_dropped [of digits0 "''2026-11-02T06:00:00.000Z''"] by simp

subsection \<open>C2: accessors on malformed input\<close>

text \<open>
  C2 says that no accessor raises an error, whatever its input. \<^verbatim>\<open>getRollupDate\<close> reads
  \<^verbatim>\<open>rollup.type\<close> unguarded and throws a TypeError on a rollup property without its
  nested object; \<^verbatim>\<open>getPlainText\<close> reads \<^verbatim>\<open>rt.plain_text\<close> of every element and throws on
  a null element. The exception leaves \<^verbatim>\<open>transformPage\<close> and ends the whole export, also
  that of the well-formed records beside the malformed one. (\<^verbatim>\<open>getStatus\<close> and
  \<^verbatim>\<open>getMapLocation\<close> do return on every property bag: \<open>getStatus_total\<close>,
  \<open>getMapLocation_total\<close>.)
\<close>

theorem accessors_throw_on_malformed_input:
  "getRollupDate bare_rollup_props ''Last Order Date'' = Inl TypeError
   \<and> getPlainText ns (JArr [JNull]) = Inl TypeError
   \<and> transformPage ns bare_rollup_page = Inl TypeError
   \<and> exportStores ns now [complete_page ''Customer'', bare_rollup_page] = Inl TypeError"
proof -
  have r: "getRollupDate bare_rollup_props ''Last Order Date'' = Inl TypeError"
    by (simp add: bare_rollup_props_def getRollupDate_def)
  have p: "getPlainText ns (JArr [JNull]) = Inl TypeError"
    by (simp add: getPlainText_def)
  have t: "transformPage ns bare_rollup_page = Inl TypeError"
    by (simp add: bare_rollup_page_def bare_rollup_props_def export_defs)
  have e: "exportStores ns now [complete_page ''Customer'', bare_rollup_page] = Inl TypeError"
    by (simp add: exportStores_def transformPage_complete_page t)
  from r p t e show ?thesis by simp
qed

theorem accessors_throw_on_malformed_input_witness:
  "getRollupDate bare_rollup_props ''Last Order Date'' = Inl TypeError
   \<and> getPlainText digits0 (JArr [JNull]) = Inl TypeError"
  using accessors_throw_on_malformed_input [of digits0 "''2026-11-02T06:00:00.000Z''"] by simp

subsection \<open>C3: one coordinate zero, the other not\<close>

text \<open>
  C3 says that a transformed store has both coordinates or none. For a record at
  latitude 0 and longitude 32, \<^verbatim>\<open>getMapLocation\<close> returns the complete pair and
  \<^verbatim>\<open>transformPage\<close> makes \<open>lat\<close> null by \<^verbatim>\<open>location?.lat || null\<close> while \<open>lng\<close> stays 32:
  a store with one coordinate.
\<close>

theorem zero_latitude_leaves_partial_coordinates:
  "getMapLocation (JObj equator_props) = Inr (JObj [(''lat'', JNum 0), (''lng'', JNum 32)])
   \<and> transformPage ns equator_page =
       Inr \<lparr> id_of = JStr ''p1'', name = JStr ''Acme'', address = JNull,
             lat = JNull, lng = JNum 32, status = JStr ''Customer'',
             lastOrderDate = JNull, lastDeliveryDate = JNull, products = [] \<rparr>"
  by (simp add: equator_page_def equator_props_def sample_defs export_defs)

theorem zero_latitude_leaves_partial_coordinates_witness:
  "transformPage digits0 equator_page =
       Inr \<lparr> id_of = JStr ''p1'', name = JStr ''Acme'', address = JNull,
             lat = JNull, lng = JNum 32, status = JStr ''Customer'',
             lastOrderDate = JNull, lastDeliveryDate = JNull, products = [] \<rparr>"
  using zero_latitude_leaves_partial_coordinates [of digits0] by simp

subsection \<open>C4: the address\<close>

text \<open>
  As stated, C4 fails where only the city is present: the street text of the sample
  record is absent, its city text is \<^verbatim>\<open>Oakland\<close>, the address of the claim is the city,
  and the address \<^verbatim>\<open>transformPage\<close> gives is null.
\<close>

theorem city_alone_gives_no_address:
  "street_text digits0 city_only_page = Inr JNull
   \<and> city_text digits0 city_only_page = Inr (JStr ''Oakland'')
   \<and> spec_address JNull (JStr ''Oakland'') = JStr ''Oakland''
   \<and> map_sum id address (transformPage digits0 city_only_page) = Inr JNull"
  by (simp add: city_only_page_def street_text_def city_text_def sample_defs export_defs)

text \<open>
  C4, amended. The address is the street and the city joined by a comma and a space
  when both are present, the street when only the street is present, and absent
  whenever the street is absent, also when the city is present. Each of the two texts
  is null or a string that is not empty.
\<close>

theorem address_from_street_then_city:
  assumes "transformPage ns page = Inr st"
  shows "\<exists>a c. street_text ns page = Inr a \<and> city_text ns page = Inr c \<and>
           (a = JNull \<or> (\<exists>s. a = JStr s \<and> s \<noteq> [])) \<and>
           (c = JNull \<or> (\<exists>t. c = JStr t \<and> t \<noteq> [])) \<and>
           address st =
             (case a of
                JStr s \<Rightarrow> (case c of JStr t \<Rightarrow> JStr (s @ '', '' @ t) | _ \<Rightarrow> JStr s)
              | _ \<Rightarrow> JNull)"
proof -
  from transformPage_Inr [OF assms] obtain props addressProp cityProp a c where
    p: "get_prop page ''properties'' = Inr props" and
    ap: "get_prop props ''Address'' = Inr addressProp" and
    a: "getPlainText ns (opt_prop addressProp ''rich_text'') = Inr a" and
    cp: "get_prop props ''City'' = Inr cityProp" and
    c: "getPlainText ns (opt_prop cityProp ''rich_text'') = Inr c" and
    ad: "(if truthy a then
            (if truthy c then
               bind_res (ToString ns a) (\<lambda>x. bind_res (ToString ns c) (\<lambda>y. Inr (JStr (x @ '', '' @ y))))
             else Inr a)
          else Inr JNull) = Inr (address st)"
    by blast
  have st: "street_text ns page = Inr a" by (simp add: street_text_def p ap a)
  have ct: "city_text ns page = Inr c" by (simp add: city_text_def p cp c)
  note ac = getPlainText_cases [OF a]
  note cc = getPlainText_cases [OF c]
  have "address st =
      (case a of
         JStr s \<Rightarrow> (case c of JStr t \<Rightarrow> JStr (s @ '', '' @ t) | _ \<Rightarrow> JStr s)
       | _ \<Rightarrow> JNull)"
  proof (cases "a = JNull")
    case True
    with ad have "address st = JNull" by simp
    with True show ?thesis by simp
  next
    case False
    with ac obtain s where s: "a = JStr s" "s \<noteq> []" by blast
    show ?thesis
    proof (cases "c = JNull")
      case True
      with ad s have "address st = JStr s" by simp
      with s True show ?thesis by simp
    next
      case False
      with cc obtain t where t: "c = JStr t" "t \<noteq> []" by blast
      with ad s have "address st = JStr (s @ '', '' @ t)" by simp
      with s t show ?thesis by simp
    qed
  qed
  with st ct ac cc show ?thesis by blast
qed

theorem address_from_street_then_city_witness:
  "transformPage digits0 street_city_page =
     Inr \<lparr> id_of = JStr ''p4'', name = JStr ''Acme'', address = JStr ''1 Main St, Oakland'',
           lat = JNum 37, lng = JNum (-122), status = JStr ''Customer'',
           lastOrderDate = JNull, lastDeliveryDate = JNull, products = [] \<rparr>
   \<and> (\<exists>a c. street_text digits0 street_city_page = Inr a \<and>
           city_text digits0 street_city_page = Inr c \<and>
           (a = JNull \<or> (\<exists>s. a = JStr s \<and> s \<noteq> [])) \<and>
           (c = JNull \<or> (\<exists>t. c = JStr t \<and> t \<noteq> [])) \<and>
           JStr ''1 Main St, Oakland'' =
             (case a of
                JStr s \<Rightarrow> (case c of JStr t \<Rightarrow> JStr (s @ '', '' @ t) | _ \<Rightarrow> JStr s)
              | _ \<Rightarrow> JNull))"
proof -
  have t: "transformPage digits0 street_city_page =
     Inr \<lparr> id_of = JStr ''p4'', name = JStr ''Acme'', address = JStr ''1 Main St, Oakland'',
           lat = JNum 37, lng = JNum (-122), status = JStr ''Customer'',
           lastOrderDate = JNull, lastDeliveryDate = JNull, products = [] \<rparr>"
    by (simp add: street_city_page_def sample_defs export_defs)
  from address_from_street_then_city [OF t] t show ?thesis by simp
qed

subsection \<open>C5: the recent customers of the analysis report\<close>




subsection \<open>C6: the status whitelist\<close>

text \<open>
  C6. \<^verbatim>\<open>Lead\<close> and \<^verbatim>\<open>Churned\<close> are not in the whitelist; the stores of the document are
  the projections of the stores the filter keeps; the filter keeps no store whose
  status is outside the whitelist, whatever its other fields; every store it keeps has
  status \<^verbatim>\<open>Customer\<close> or \<^verbatim>\<open>Customer Overdue\<close>.
\<close>

theorem unlisted_status_filtered_out:
  assumes "exportStores ns now pages = Inr doc"
  shows "JStr ''Lead'' \<notin> set VALID_ACCOUNT_STATUSES \<and>
         JStr ''Churned'' \<notin> set VALID_ACCOUNT_STATUSES \<and>
         (\<exists>allStores. map_res (transformPage ns) pages = Inr allStores \<and>
            stores doc = map outputStore (filterStores allStores) \<and>
            (\<forall>st\<in>set allStores.
               status st \<notin> set VALID_ACCOUNT_STATUSES \<longrightarrow> st \<notin> set (filterStores allStores)) \<and>
            (\<forall>st\<in>set (filterStores allStores).
               status st = JStr ''Customer'' \<or> status st = JStr ''Customer Overdue''))"
proof -
  from exportStores_Inr [OF assms] obtain allStores where
    m: "map_res (transformPage ns) pages = Inr allStores" and
    s: "stores doc = map outputStore (filterStores allStores)"
    by blast
  have a: "\<forall>st\<in>set allStores.
             status st \<notin> set VALID_ACCOUNT_STATUSES \<longrightarrow> st \<notin> set (filterStores allStores)"
    by (simp add: filterStores_set)
  have b: "\<forall>st\<in>set (filterStores allStores).
             status st = JStr ''Customer'' \<or> status st = JStr ''Customer Overdue''"
    by (simp add: filterStores_set VALID_ACCOUNT_STATUSES_def)
  have c: "JStr ''Lead'' \<notin> set VALID_ACCOUNT_STATUSES" "JStr ''Churned'' \<notin> set VALID_ACCOUNT_STATUSES"
    by (simp_all add: VALID_ACCOUNT_STATUSES_def)
  from m s a b c show ?thesis by blast
qed

theorem unlisted_status_filtered_out_witness:
  "exportStores digits0 ''2026-11-02T06:00:00.000Z'' [complete_page ''Lead'', complete_page ''Customer'']
     = Inr \<lparr>generated = ''2026-11-02T06:00:00.000Z'', count = 1, stores = [complete_output]\<rparr>
   \<and> map_res (transformPage digits0) [complete_page ''Lead'', complete_page ''Customer'']
     = Inr [complete_store ''Lead'', complete_store ''Customer'']
   \<and> filterStores [complete_store ''Lead'', complete_store ''Customer''] = [complete_store ''Customer'']
   \<and> JStr ''Lead'' \<notin> set VALID_ACCOUNT_STATUSES
   \<and> JStr ''Churned'' \<notin> set VALID_ACCOUNT_STATUSES
   \<and> (\<exists>allStores.
         map_res (transformPage digits0) [complete_page ''Lead'', complete_page ''Customer'']
           = Inr allStores \<and>
         stores \<lparr>generated = ''2026-11-02T06:00:00.000Z'', count = 1, stores = [complete_output]\<rparr>
           = map outputStore (filterStores allStores) \<and>
         (\<forall>st\<in>set allStores.
            status st \<notin> set VALID_ACCOUNT_STATUSES \<longrightarrow> st \<notin> set (filterStores allStores)) \<and>
         (\<forall>st\<in>set (filterStores allStores).
            status st = JStr ''Customer'' \<or> status st = JStr ''Customer Overdue''))"
proof -
  have m: "map_res (transformPage digits0) [complete_page ''Lead'', complete_page ''Customer'']
     = Inr [complete_store ''Lead'', complete_store ''Customer'']"
    by (simp add: transformPage_complete_page)
  from unlisted_status_filtered_out
      [OF exportStores_complete [of digits0 "''2026-11-02T06:00:00.000Z''"]]
    exportStores_complete [of digits0 "''2026-11-02T06:00:00.000Z''"] m filterStores_complete
  show ?thesis by simp
qed

subsection \<open>C7: what the filter guarantees of an output record\<close>

text \<open>
  C7. In every record of the assembled document, \<open>lat\<close> and \<open>lng\<close> are both numbers and
  \<open>name\<close> is a string that is not empty.
\<close>

theorem output_records_located_and_named:
  assumes "exportStores ns now pages = Inr doc"
  shows "\<forall>r\<in>set (stores doc).
           (\<exists>x. out_lat r = JNum x) \<and> (\<exists>y. out_lng r = JNum y) \<and>
           (\<exists>s. out_name r = JStr s \<and> s \<noteq> [])"
proof
  fix r assume r: "r \<in> set (stores doc)"
  from exportStores_Inr [OF assms] obtain allStores where
    m: "map_res (transformPage ns) pages = Inr allStores" and
    s: "stores doc = map outputStore (filterStores allStores)"
    by blast
  from r s obtain st where st: "st \<in> set (filterStores allStores)" and rst: "r = outputStore st"
    by auto
  from st have mem: "st \<in> set allStores" and tn: "truthy (name st)"
    and tla: "truthy (lat st)" and tlo: "truthy (lng st)"
    by (simp_all add: filterStores_set)
  from map_res_set [OF m mem] obtain page where tp: "transformPage ns page = Inr st"
    by blast
  from transformPage_fields(1) [OF tp] tn have "\<exists>s. name st = JStr s \<and> s \<noteq> []" by auto
  moreover from transformPage_fields(2) [OF tp] tla have "\<exists>x. lat st = JNum x" by auto
  moreover from transformPage_fields(3) [OF tp] tlo have "\<exists>y. lng st = JNum y" by auto
  ultimately show "(\<exists>x. out_lat r = JNum x) \<and> (\<exists>y. out_lng r = JNum y) \<and>
           (\<exists>s. out_name r = JStr s \<and> s \<noteq> [])"
    by (simp add: rst outputStore_def)
qed

theorem output_records_located_and_named_witness:
  "exportStores digits0 ''2026-11-02T06:00:00.000Z'' [complete_page ''Lead'', complete_page ''Customer'']
     = Inr \<lparr>generated = ''2026-11-02T06:00:00.000Z'', count = 1, stores = [complete_output]\<rparr>
   \<and> (\<exists>x. out_lat complete_output = JNum x) \<and> (\<exists>y. out_lng complete_output = JNum y)
   \<and> (\<exists>s. out_name complete_output = JStr s \<and> s \<noteq> [])"
  using output_records_located_and_named
      [OF exportStores_complete [of digits0 "''2026-11-02T06:00:00.000Z''"]]
    exportStores_complete [of digits0 "''2026-11-02T06:00:00.000Z''"]
  by simp

subsection \<open>C8: the products of a record\<close>

text \<open>
  C8. The list \<^verbatim>\<open>getProducts\<close> returns has no display name twice, and a display name is
  in it exactly when one of the indicator fields mapped to it has a rollup date that is
  present (not null). In the sample record both SMACK sizes have a date and the list
  has one \<^verbatim>\<open>SMACK\<close>.
\<close>

theorem products_deduplicated:
  assumes "getProducts props = Inr ps"
  shows "distinct ps \<and>
         (\<forall>d. d \<in> set ps \<longleftrightarrow>
            (\<exists>k v. (k, d) \<in> set PRODUCT_COLUMNS \<and> getRollupDate props k = Inr v \<and> v \<noteq> JNull))"
proof -
  from assms have "products_loop props PRODUCT_COLUMNS [] = Inr ps"
    by (simp add: getProducts_def)
  from products_loop_inv [OF this] have d: "distinct ps" and
    s: "set ps = {d. \<exists>k v. (k, d) \<in> set PRODUCT_COLUMNS \<and> getRollupDate props k = Inr v \<and> truthy v}"
    by simp_all
  have "d \<in> set ps \<longleftrightarrow>
          (\<exists>k v. (k, d) \<in> set PRODUCT_COLUMNS \<and> getRollupDate props k = Inr v \<and> v \<noteq> JNull)" for d
    unfolding s using getRollupDate_present [of props] by blast
  with d show ?thesis by blast
qed

theorem products_deduplicated_witness:
  "getProducts (JObj (complete_props ''Customer'')) = Inr [''SMACK'']
   \<and> getRollupDate (JObj (complete_props ''Customer'')) ''SMACK 1G'' = Inr (JStr ''2026-01-15'')
   \<and> getRollupDate (JObj (complete_props ''Customer'')) ''SMACK .5G'' = Inr (JStr ''2026-01-15'')
   \<and> distinct [''SMACK'']
   \<and> (\<forall>d. d \<in> set [''SMACK''] \<longleftrightarrow>
          (\<exists>k v. (k, d) \<in> set PRODUCT_COLUMNS \<and>
             getRollupDate (JObj (complete_props ''Customer'')) k = Inr v \<and> v \<noteq> JNull))"
proof -
  have r: "getRollupDate (JObj (complete_props ''Customer'')) ''SMACK 1G'' = Inr (JStr ''2026-01-15'')"
    "getRollupDate (JObj (complete_props ''Customer'')) ''SMACK .5G'' = Inr (JStr ''2026-01-15'')"
    by (simp_all add: complete_props_def sample_defs getRollupDate_def js_or_def)
  from products_deduplicated [OF getProducts_complete [of "''Customer''"]] r
    getProducts_complete [of "''Customer''"]
  show ?thesis by blast
qed

subsection \<open>C9: the date of an output record\<close>

text \<open>
  C9. The stores of the document are the projections of the filtered stores, and for
  every filtered store the projection's \<open>lastDelivery\<close> is the store's
  \<open>lastDeliveryDate\<close> when that is present (not null) and its \<open>lastOrderDate\<close>
  otherwise. The two dates are never compared: in the sample record the order date is
  the later one and the delivery date is the one published.
\<close>

theorem lastDelivery_prefers_delivery_date:
  assumes "exportStores ns now pages = Inr doc"
  shows "\<exists>allStores. map_res (transformPage ns) pages = Inr allStores \<and>
           stores doc = map outputStore (filterStores allStores) \<and>
           (\<forall>st\<in>set (filterStores allStores).
              lastDelivery (outputStore st) =
                (if lastDeliveryDate st \<noteq> JNull then lastDeliveryDate st else lastOrderDate st))"
proof -
  from exportStores_Inr [OF assms] obtain allStores where
    m: "map_res (transformPage ns) pages = Inr allStores" and
    s: "stores doc = map outputStore (filterStores allStores)"
    by blast
  have "lastDelivery (outputStore st) =
          (if lastDeliveryDate st \<noteq> JNull then lastDeliveryDate st else lastOrderDate st)"
    if "st \<in> set (filterStores allStores)" for st
  proof -
    from that have "st \<in> set allStores" by (simp add: filterStores_set)
    from map_res_set [OF m this] obtain page where "transformPage ns page = Inr st"
      by blast
    from transformPage_fields(5) [OF this] show ?thesis
      by (auto simp: outputStore_def js_or_def)
  qed
  with m s show ?thesis by blast
qed

theorem lastDelivery_prefers_delivery_date_witness:
  "exportStores digits0 ''2026-11-02T06:00:00.000Z'' [complete_page ''Customer'']
     = Inr \<lparr>generated = ''2026-11-02T06:00:00.000Z'', count = 1, stores = [complete_output]\<rparr>
   \<and> lastOrderDate (complete_store ''Customer'') = JStr ''2026-10-20''
   \<and> lastDeliveryDate (complete_store ''Customer'') = JStr ''2026-01-15''
   \<and> lastDelivery complete_output = JStr ''2026-01-15''
   \<and> (\<exists>allStores. map_res (transformPage digits0) [complete_page ''Customer''] = Inr allStores \<and>
           stores \<lparr>generated = ''2026-11-02T06:00:00.000Z'', count = 1, stores = [complete_output]\<rparr>
             = map outputStore (filterStores allStores) \<and>
           (\<forall>st\<in>set (filterStores allStores).
              lastDelivery (outputStore st) =
                (if lastDeliveryDate st \<noteq> JNull then lastDeliveryDate st else lastOrderDate st)))"
proof -
  have e: "exportStores digits0 ''2026-11-02T06:00:00.000Z'' [complete_page ''Customer'']
     = Inr \<lparr>generated = ''2026-11-02T06:00:00.000Z'', count = 1, stores = [complete_output]\<rparr>"
    by (simp add: exportStores_def transformPage_complete_page filterStores_def
        VALID_ACCOUNT_STATUSES_def outputStore_complete_store)
      (simp add: complete_store_def)
  show ?thesis
    using lastDelivery_prefers_delivery_date [OF e] e
    by (simp add: complete_store_def complete_output_def)
qed

subsection \<open>C10: the count of the document\<close>

text \<open>
  C10. Every export document that \<^verbatim>\<open>exportStores\<close> assembles has a \<open>count\<close> equal to the
  length of its \<open>stores\<close>.
\<close>

theorem exportStores_count:
  "exportStores ns now pages = Inr doc \<Longrightarrow> count doc = length (stores doc)"
  using exportStores_Inr [of ns now pages doc] by auto

theorem exportStores_count_witness:
  "exportStores digits0 ''2026-11-02T06:00:00.000Z'' [complete_page ''Lead'', complete_page ''Customer'']
     = Inr \<lparr>generated = ''2026-11-02T06:00:00.000Z'', count = 1, stores = [complete_output]\<rparr>
   \<and> count \<lparr>generated = ''2026-11-02T06:00:00.000Z'', count = 1, stores = [complete_output]\<rparr>
     = length (stores \<lparr>generated = ''2026-11-02T06:00:00.000Z'', count = 1, stores = [complete_output]\<rparr>)"
  using exportStores_count [OF exportStores_complete [of digits0 "''2026-11-02T06:00:00.000Z''"]]
    exportStores_complete [of digits0 "''2026-11-02T06:00:00.000Z''"]
  by simp

end
